theory Spec2Isabelle
  imports Complex_Main
begin

section \<open>Tariff rate function (network\_charge.py)\<close>

text \<open>
  A \<open>dt.datetime\<close> is a record of its calendar fields. Only \<open>month\<close> and \<open>hour\<close> are
  read by the tariff function. The two rates are held as the decimal numbers their floats
  print as.
\<close>

record datetime =
  year :: int
  month :: int
  day :: int
  hour :: int
  minute :: int

definition days_in_month :: "int \<Rightarrow> int \<Rightarrow> int" where
  "days_in_month y m =
     (if m = 2 then (if y mod 4 = 0 \<and> (y mod 100 \<noteq> 0 \<or> y mod 400 = 0) then 29 else 28)
      else if m \<in> set [4, 6, 9, 11] then 30 else 31)"

text \<open>The field ranges that the constructor of \<open>dt.datetime\<close> enforces.\<close>

definition valid_datetime :: "datetime \<Rightarrow> bool" where
  "valid_datetime d \<longleftrightarrow>
     1 \<le> year d \<and> year d \<le> 9999 \<and> 1 \<le> month d \<and> month d \<le> 12 \<and>
     1 \<le> day d \<and> day d \<le> days_in_month (year d) (month d) \<and>
     0 \<le> hour d \<and> hour d < 24 \<and> 0 \<le> minute d \<and> minute d < 60"

text \<open>
  The two local constants after their conversion to \$/MWh
  (\<^verbatim>\<open>PEAK_CHARGE = PEAK_CHARGE * 10\<close>).
\<close>

definition PEAK_CHARGE :: real where
  "PEAK_CHARGE = 32.1695 * 10"

definition OFFPEAK_CHARGE :: real where
  "OFFPEAK_CHARGE = 5.6688 * 10"

text \<open>
  The outer \<^verbatim>\<open>if\<close> of the source has no \<^verbatim>\<open>else\<close>: for the other months the
  function body ends without a \<^verbatim>\<open>return\<close>, and the call yields Python's \<open>None\<close>,
  here \<open>None\<close>.
\<close>

definition calculate_local_price :: "datetime \<Rightarrow> real option" where
  "calculate_local_price d =
     (if month d \<in> set [11, 12, 1, 2, 3] \<or> month d \<in> set [6, 7, 8] then
        (if hour d \<ge> 15 \<and> hour d < 21 then Some PEAK_CHARGE else Some OFFPEAK_CHARGE)
      else None)"


section \<open>Proxy service (app.py)\<close>

subsection \<open>Python floats\<close>

text \<open>
  A Python float is an IEEE 754 double: a finite value, given here by the real number it
  denotes, an infinity or NaN. The two zeros are not told apart (\<open>-0.0 == 0.0\<close>).
  Arithmetic computes the exact result and rounds it to the nearest double, ties to the
  even significand.
\<close>

datatype pyfloat = Finite real | PosInf | NegInf | NaN

fun floor_log2 :: "nat \<Rightarrow> nat" where
  "floor_log2 n = (if n < 2 then 0 else Suc (floor_log2 (n div 2)))"

declare floor_log2.simps [simp del]

text \<open>The binary exponent \<open>e\<close> of \<open>x \<noteq> 0\<close>, with \<open>2 ^ e \<le> \<bar>x\<bar> < 2 ^ (e + 1)\<close>.\<close>

definition exponent_of :: "real \<Rightarrow> int" where
  "exponent_of x =
     (if 1 \<le> \<bar>x\<bar> then int (floor_log2 (nat \<lfloor>\<bar>x\<bar>\<rfloor>))
      else - int (Suc (floor_log2 (nat (\<lceil>1 / \<bar>x\<bar>\<rceil> - 1)))))"

definition pow2 :: "int \<Rightarrow> real" where
  "pow2 e = (if 0 \<le> e then 2 ^ nat e else 1 / 2 ^ nat (- e))"

definition round_half_even :: "real \<Rightarrow> int" where
  "round_half_even y =
     (let n = \<lfloor>y\<rfloor>; d = y - of_int n
      in if d < 1 / 2 then n else if 1 / 2 < d then n + 1 else if even n then n else n + 1)"

text \<open>
  The double nearest to \<open>x\<close>, were the exponent range unbounded above: 53 significant
  bits, and multiples of \<open>2 ^ -1074\<close> in the subnormal range.
\<close>

definition nearest_double :: "real \<Rightarrow> real" where
  "nearest_double x =
     (if x = 0 then 0
      else (let ulp = pow2 (max (exponent_of x - 52) (- 1074))
            in of_int (round_half_even (x / ulp)) * ulp))"

text \<open>
  The largest finite double is \<open>2 ^ 1024 - 2 ^ 971\<close>; from the midpoint
  \<open>2 ^ 1024 - 2 ^ 970\<close> on, a result rounds to an infinity.
\<close>

definition round_double :: "real \<Rightarrow> pyfloat" where
  "round_double x =
     (if \<bar>x\<bar> < 2 ^ 1024 - 2 ^ 970 then Finite (nearest_double x)
      else if 0 < x then PosInf else NegInf)"

fun is_finite :: "pyfloat \<Rightarrow> bool" where
  "is_finite (Finite a) = True"
| "is_finite x = False"

fun fneg :: "pyfloat \<Rightarrow> pyfloat" where
  "fneg (Finite a) = Finite (- a)"
| "fneg PosInf = NegInf"
| "fneg NegInf = PosInf"
| "fneg NaN = NaN"

fun fadd :: "pyfloat \<Rightarrow> pyfloat \<Rightarrow> pyfloat" where
  "fadd (Finite a) (Finite b) = round_double (a + b)"
| "fadd NaN y = NaN"
| "fadd x NaN = NaN"
| "fadd PosInf NegInf = NaN"
| "fadd NegInf PosInf = NaN"
| "fadd PosInf y = PosInf"
| "fadd x PosInf = PosInf"
| "fadd NegInf y = NegInf"
| "fadd x NegInf = NegInf"

definition fsub :: "pyfloat \<Rightarrow> pyfloat \<Rightarrow> pyfloat" where
  "fsub x y = fadd x (fneg y)"

text \<open>\<^verbatim>\<open>fabs(x) >= fabs(y)\<close>, false when either is NaN.\<close>

fun fabs_ge :: "pyfloat \<Rightarrow> pyfloat \<Rightarrow> bool" where
  "fabs_ge NaN y = False"
| "fabs_ge x NaN = False"
| "fabs_ge (Finite a) (Finite b) = (\<bar>b\<bar> \<le> \<bar>a\<bar>)"
| "fabs_ge (Finite a) y = False"
| "fabs_ge x y = True"

datatype error =
  AttributeError | OverflowError | TypeError | JSONDecodeError | ZeroDivisionError

text \<open>
  \<^verbatim>\<open>x / n\<close> for a float \<open>x\<close> and an int \<open>n\<close> that converts to a float exactly (here a
  list length).
\<close>

definition truediv :: "pyfloat \<Rightarrow> nat \<Rightarrow> error + pyfloat" where
  "truediv x n =
     (if n = 0 then Inl ZeroDivisionError
      else Inr (case x of Finite a \<Rightarrow> round_double (a / of_nat n) | _ \<Rightarrow> x))"

text \<open>
  The built-in \<^verbatim>\<open>sum\<close> on a list of floats. It starts from the int \<open>0\<close> and adds the
  first item to it. Up to Python 3.11 it then adds the items from left to right; from
  3.12 on it also carries Neumaier's compensation term \<open>c\<close> and adds it at the end when
  it is finite and not zero. Which of the two runs is a property of the interpreter
  (\<open>compensated\<close>).
\<close>

definition neumaier_step :: "pyfloat \<times> pyfloat \<Rightarrow> pyfloat \<Rightarrow> pyfloat \<times> pyfloat" where
  "neumaier_step fc x =
     (let (f, c) = fc; t = fadd f x
      in (t, fadd c (if fabs_ge f x then fadd (fsub f t) x else fadd (fsub x t) f)))"

definition py_sum :: "bool \<Rightarrow> pyfloat list \<Rightarrow> pyfloat" where
  "py_sum compensated xs =
     (case xs of
        [] \<Rightarrow> Finite 0
      | x # rest \<Rightarrow>
          (let start = fadd (Finite 0) x
           in if compensated
              then (let (f, c) = foldl neumaier_step (start, Finite 0) rest
                    in if c \<noteq> Finite 0 \<and> is_finite c then fadd f c else f)
              else foldl fadd start rest))"


subsection \<open>The interpreter\<close>

text \<open>
  What the code takes from the Python runtime and no source file fixes: the case mapping
  \<^verbatim>\<open>str.upper\<close>, which follows the Unicode tables of the interpreter, and the
  summation algorithm of \<^verbatim>\<open>sum\<close>. A \<open>str\<close> is held as the list of its characters,
  those beyond ASCII as their UTF-8 bytes.
\<close>

record runtime =
  str_upper :: "string \<Rightarrow> string"
  sum_compensated :: bool

text \<open>
  What \<^verbatim>\<open>str.upper\<close> does on ASCII text, and with it an interpreter up to 3.11 for
  payloads whose region tags are ASCII.
\<close>

definition upper_char :: "char \<Rightarrow> char" where
  "upper_char c =
     (case map_of (zip ''abcdefghijklmnopqrstuvwxyz'' ''ABCDEFGHIJKLMNOPQRSTUVWXYZ'') c of
        None \<Rightarrow> c | Some u \<Rightarrow> u)"

definition ascii_upper :: "string \<Rightarrow> string" where
  "ascii_upper s = map upper_char s"

definition ascii_runtime :: runtime where
  "ascii_runtime = \<lparr>str_upper = ascii_upper, sum_compensated = False\<rparr>"


subsection \<open>Parsed JSON and the Python operations used on it\<close>

text \<open>
  What \<^verbatim>\<open>response.json()\<close> yields: \<open>None\<close>, a bool, an int (unbounded), a float
  (\<^verbatim>\<open>NaN\<close>, \<^verbatim>\<open>Infinity\<close> and \<^verbatim>\<open>1e400\<close> parse to NaN and the infinities), a string, a
  list or a dict. A dict is held as the list of its items (keys distinct) and read with
  \<open>dict_get\<close>.
\<close>

datatype json =
    JNull
  | JBool bool
  | JInt int
  | JFloat pyfloat
  | JStr string
  | JList "json list"
  | JDict "(string \<times> json) list"

text \<open>\<^verbatim>\<open>d.get(k)\<close>: the value, or \<open>None\<close> when the key is missing.\<close>

definition dict_get :: "(string \<times> json) list \<Rightarrow> string \<Rightarrow> json" where
  "dict_get kvs k = (case map_of kvs k of None \<Rightarrow> JNull | Some v \<Rightarrow> v)"

text \<open>Python truthiness, and \<^verbatim>\<open>a or b\<close>, which returns an operand, not a bool.\<close>

fun truthy :: "json \<Rightarrow> bool" where
  "truthy JNull = False"
| "truthy (JBool b) = b"
| "truthy (JInt i) = (i \<noteq> 0)"
| "truthy (JFloat f) = (f \<noteq> Finite 0)"
| "truthy (JStr s) = (s \<noteq> [])"
| "truthy (JList xs) = (xs \<noteq> [])"
| "truthy (JDict kvs) = (kvs \<noteq> [])"

definition py_or :: "json \<Rightarrow> json \<Rightarrow> json" where
  "py_or a b = (if truthy a then a else b)"

text \<open>\<^verbatim>\<open>isinstance(v, (int, float))\<close>; \<open>bool\<close> is a subclass of \<open>int\<close>.\<close>

fun is_number :: "json \<Rightarrow> bool" where
  "is_number (JInt i) = True"
| "is_number (JFloat f) = True"
| "is_number (JBool b) = True"
| "is_number v = False"

text \<open>
  \<^verbatim>\<open>float(v)\<close>. An int is rounded to the nearest double; one whose nearest double
  would be beyond the largest finite double raises \<open>OverflowError\<close>. The source calls
  \<open>float\<close> on numbers only; the last equation is never reached from it.
\<close>

definition FLOAT_LIMIT :: int where
  "FLOAT_LIMIT = 2 ^ 1024 - 2 ^ 970"

fun py_float :: "json \<Rightarrow> error + pyfloat" where
  "py_float (JInt i) =
     (if \<bar>i\<bar> < FLOAT_LIMIT then Inr (Finite (nearest_double (of_int i)))
      else Inl OverflowError)"
| "py_float (JFloat f) = Inr f"
| "py_float (JBool b) = Inr (Finite (if b then 1 else 0))"
| "py_float v = Inl TypeError"

text \<open>
  A \<^verbatim>\<open>for x in xs:\<close> loop whose body updates the state \<open>s\<close> or raises; the first
  exception ends the loop.
\<close>

fun for_each :: "('a \<Rightarrow> 's \<Rightarrow> error + 's) \<Rightarrow> 'a list \<Rightarrow> 's \<Rightarrow> error + 's" where
  "for_each body [] s = Inr s"
| "for_each body (x # xs) s =
     (case body x s of Inl e \<Rightarrow> Inl e | Inr s' \<Rightarrow> for_each body xs s')"


subsection \<open>Constants\<close>

definition API_BASE :: string where
  "API_BASE = ''https://api.openelectricity.org.au/v4/market/network/NEM''"

definition NETWORK_REGION :: string where
  "NETWORK_REGION = ''NSW1''"

definition INTERVAL :: string where
  "INTERVAL = ''5m''"

definition METRIC :: string where
  "METRIC = ''price''"

definition MIN_POINTS :: nat where
  "MIN_POINTS = 3"


subsection \<open>Extraction of the price points\<close>

text \<open>\<^verbatim>\<open>numeric_values.append(float(v))\<close>.\<close>

definition append_float :: "json \<Rightarrow> pyfloat list \<Rightarrow> error + pyfloat list" where
  "append_float v numeric_values =
     (case py_float v of Inl e \<Rightarrow> Inl e | Inr x \<Rightarrow> Inr (numeric_values @ [x]))"

text \<open>The body of \<^verbatim>\<open>for row in rows\<close>.\<close>

definition row_step :: "json \<Rightarrow> pyfloat list \<Rightarrow> error + pyfloat list" where
  "row_step row numeric_values =
     (case row of
        JList xs \<Rightarrow>
          if length xs \<ge> 2 \<and> is_number (xs ! 1) then append_float (xs ! 1) numeric_values
          else Inr numeric_values
      | JDict kvs \<Rightarrow>
          (let val = py_or (py_or (dict_get kvs ''value'') (dict_get kvs ''price''))
                           (dict_get kvs ''v'')
           in if is_number val then append_float val numeric_values else Inr numeric_values)
      | _ \<Rightarrow>
          if is_number row then append_float row numeric_values else Inr numeric_values)"

text \<open>
  \<^verbatim>\<open>cols.get("region") or cols.get("network_region") or cols.get("code")\<close>, the
  region tag of a result.
\<close>

definition region_of :: "(string \<times> json) list \<Rightarrow> json" where
  "region_of cols =
     py_or (py_or (dict_get cols ''region'') (dict_get cols ''network_region''))
           (dict_get cols ''code'')"

text \<open>
  \<^verbatim>\<open>str(region).upper() != NETWORK_REGION\<close>. For a region that is not a string,
  \<open>str\<close> gives the printed form of a bool, a number, a list or a dict, and none of these
  is \<open>NSW1\<close> in upper case, so the test is true.
\<close>

definition region_differs :: "runtime \<Rightarrow> json \<Rightarrow> bool" where
  "region_differs py region =
     (case region of JStr s \<Rightarrow> str_upper py s \<noteq> NETWORK_REGION | _ \<Rightarrow> True)"

text \<open>
  \<^verbatim>\<open>rows = result.get("data") or []\<close>, with no row to visit when \<open>rows\<close> is not a list.
\<close>

definition rows_of :: "(string \<times> json) list \<Rightarrow> json list" where
  "rows_of result =
     (case py_or (dict_get result ''data'') (JList []) of JList rows \<Rightarrow> rows | _ \<Rightarrow> [])"

text \<open>
  The body of \<^verbatim>\<open>for result in results\<close>. \<^verbatim>\<open>cols = result.get("columns") or {}\<close> is
  not checked to be a dict: on any other truthy value \<^verbatim>\<open>cols.get\<close> raises
  \<open>AttributeError\<close>.
\<close>

definition result_step :: "runtime \<Rightarrow> json \<Rightarrow> pyfloat list \<Rightarrow> error + pyfloat list" where
  "result_step py result numeric_values =
     (case result of
        JDict r \<Rightarrow>
          (case py_or (dict_get r ''columns'') (JDict []) of
             JDict cols \<Rightarrow>
               (let region = region_of cols
                in if truthy region \<and> region_differs py region then Inr numeric_values
                   else for_each row_step (rows_of r) numeric_values)
           | _ \<Rightarrow> Inl AttributeError)
      | _ \<Rightarrow> Inr numeric_values)"

text \<open>The body of \<^verbatim>\<open>for series in series_list\<close>.\<close>

definition series_step :: "runtime \<Rightarrow> json \<Rightarrow> pyfloat list \<Rightarrow> error + pyfloat list" where
  "series_step py series numeric_values =
     (case series of
        JDict s \<Rightarrow>
          if dict_get s ''metric'' \<noteq> JStr METRIC then Inr numeric_values
          else (case dict_get s ''results'' of
                  JList results \<Rightarrow> for_each (result_step py) results numeric_values
                | _ \<Rightarrow> Inr numeric_values)
      | _ \<Rightarrow> Inr numeric_values)"

text \<open>\<^verbatim>\<open>_extract_prices\<close>.\<close>

definition extract_prices :: "runtime \<Rightarrow> json \<Rightarrow> error + pyfloat list" where
  "extract_prices py payload =
     (let data = (case payload of JDict p \<Rightarrow> dict_get p ''data'' | _ \<Rightarrow> JList []);
          series_list = (case data of JList xs \<Rightarrow> xs | _ \<Rightarrow> [])
      in for_each (series_step py) series_list [])"


subsection \<open>The endpoint\<close>

text \<open>
  The process environment read by \<^verbatim>\<open>os.getenv\<close>, the outbound request, and what
  \<^verbatim>\<open>client.get\<close> gives back: a transport failure (\<^verbatim>\<open>httpx.HTTPError\<close>, with its
  message) or a response, whose \<^verbatim>\<open>json()\<close> is \<open>None\<close> when the body does not decode.
\<close>

type_synonym environ = "string \<rightharpoonup> string"

record request =
  url :: string
  params :: "(string \<times> string) list"
  headers :: "(string \<times> string) list"

record response =
  status_code :: int
  resp_text :: string
  resp_json :: "json option"

datatype upstream = TransportFailure string | Response response

datatype http_exception = HTTPException int string

record average_price_reply =
  network_region :: string
  interval :: string
  points_used :: nat
  price_points :: "pyfloat list"
  average_price :: pyfloat
  units :: string

definition reply_finite :: "average_price_reply \<Rightarrow> bool" where
  "reply_finite r \<longleftrightarrow> list_all is_finite (price_points r) \<and> is_finite (average_price r)"

text \<open>
  How a request to the endpoint ends: the handler returns, raises an \<open>HTTPException\<close>
  (its status), or lets another exception escape (status 500). The framework sends a
  returned dict with status 200; its JSON rendering (\<^verbatim>\<open>json.dumps\<close> with
  \<^verbatim>\<open>allow_nan=False\<close>) raises on a float that is not finite, which ends in status 500.
\<close>

datatype outcome =
    Returned average_price_reply
  | Raised http_exception
  | Unhandled error

fun status_of :: "outcome \<Rightarrow> int" where
  "status_of (Returned r) = (if reply_finite r then 200 else 500)"
| "status_of (Raised (HTTPException code detail)) = code"
| "status_of (Unhandled e) = 500"

text \<open>\<^verbatim>\<open>_get_auth_header\<close>: an unset variable and an empty one are both falsy.\<close>

definition getenv_or :: "string option \<Rightarrow> string option \<Rightarrow> string option" where
  "getenv_or a b = (case a of Some (c # cs) \<Rightarrow> a | _ \<Rightarrow> b)"

definition get_auth_header :: "environ \<Rightarrow> http_exception + (string \<times> string) list" where
  "get_auth_header env =
     (case getenv_or (env ''OPENELECTRICITY_API_TOKEN'') (env ''OPEN_ELECTRICITY_API_KEY'') of
        Some (c # cs) \<Rightarrow> Inr [(''Authorization'', ''Bearer '' @ c # cs)]
      | _ \<Rightarrow>
          Inl (HTTPException 500
                 ''OPENELECTRICITY_API_TOKEN or OPEN_ELECTRICITY_API_KEY is not set''))"

text \<open>
  \<^verbatim>\<open>get_average_price\<close>. The time window is read from the clock by
  \<^verbatim>\<open>_time_window_minutes\<close> and is an input here; \<open>client\<close> stands for the upstream API
  behind \<^verbatim>\<open>client.get\<close>. The second component lists the outbound calls made. The
  arguments of \<^verbatim>\<open>client.get\<close> are evaluated before the call, so an exception of
  \<^verbatim>\<open>_get_auth_header\<close> leaves the list empty; it is not an \<^verbatim>\<open>httpx.HTTPError\<close> and
  passes the \<^verbatim>\<open>except\<close> clause. The average is
  \<^verbatim>\<open>sum(last_three) / len(last_three)\<close> in float arithmetic.
\<close>

definition query_params :: "string \<times> string \<Rightarrow> (string \<times> string) list" where
  "query_params window =
     (let (date_start, date_end) = window
      in [(''metrics'', METRIC), (''interval'', INTERVAL),
          (''network_region'', NETWORK_REGION),
          (''primary_grouping'', ''network_region''),
          (''date_start'', date_start), (''date_end'', date_end)])"

definition get_average_price ::
  "runtime \<Rightarrow> environ \<Rightarrow> string \<times> string \<Rightarrow> (request \<Rightarrow> upstream)
     \<Rightarrow> outcome \<times> request list" where
  "get_average_price py env window client =
     (let params = query_params window
      in case get_auth_header env of
           Inl exc \<Rightarrow> (Raised exc, [])
         | Inr hdrs \<Rightarrow>
             (let req = \<lparr>url = API_BASE, params = params, headers = hdrs\<rparr>
              in case client req of
                   TransportFailure exc \<Rightarrow>
                     (Raised (HTTPException 502 (''Upstream request failed: '' @ exc)), [req])
                 | Response resp \<Rightarrow>
                     if status_code resp \<ge> 400
                     then (Raised (HTTPException (status_code resp) (resp_text resp)), [req])
                     else (case resp_json resp of
                        None \<Rightarrow> (Unhandled JSONDecodeError, [req])
                      | Some payload \<Rightarrow>
                          (case extract_prices py payload of
                             Inl e \<Rightarrow> (Unhandled e, [req])
                           | Inr values \<Rightarrow>
                               if length values < MIN_POINTS
                               then (Raised (HTTPException 502
                                 ''Upstream response did not contain enough price points''),
                                 [req])
                               else
                                 (let last_three = drop (length values - MIN_POINTS) values
                                  in case truediv (py_sum (sum_compensated py) last_three)
                                                  (length last_three) of
                                       Inl e \<Rightarrow> (Unhandled e, [req])
                                     | Inr average \<Rightarrow>
                                         (Returned \<lparr>network_region = NETWORK_REGION,
                                                     interval = INTERVAL,
                                                     points_used = length last_three,
                                                     price_points = last_three,
                                                     average_price = average,
                                                     units = ''$ / MWh''\<rparr>, [req]))))))"


section \<open>Properties of the tariff rate function\<close>

lemma PEAK_CHARGE_value: "PEAK_CHARGE = 321.695"
  by (simp add: PEAK_CHARGE_def)

lemma OFFPEAK_CHARGE_value: "OFFPEAK_CHARGE = 56.688"
  by (simp add: OFFPEAK_CHARGE_def)

text \<open>
  C4. In a summer month (Nov, Dec, Jan, Feb, Mar) or a winter month (Jun, Jul, Aug) the
  function returns the peak rate 321.695 exactly when \<open>15 \<le> hour < 21\<close> and the off-peak
  rate 56.688 at every other hour.  In particular 2025-07-15T16:00 gives 321.695 and
  2025-07-15T10:00 gives 56.688.
\<close>

theorem calculate_local_price_season:
  "(month d \<in> {11, 12, 1, 2, 3} \<union> {6, 7, 8} \<longrightarrow>
      calculate_local_price d =
        Some (if 15 \<le> hour d \<and> hour d < 21 then 321.695 else 56.688) \<and>
      (calculate_local_price d = Some 321.695 \<longleftrightarrow> 15 \<le> hour d \<and> hour d < 21)) \<and>
   calculate_local_price \<lparr>year = 2025, month = 7, day = 15, hour = 16, minute = 0\<rparr>
     = Some 321.695 \<and>
   calculate_local_price \<lparr>year = 2025, month = 7, day = 15, hour = 10, minute = 0\<rparr>
     = Some 56.688"
  by (simp add: calculate_local_price_def PEAK_CHARGE_value OFFPEAK_CHARGE_value)

theorem calculate_local_price_season_witness:
  "valid_datetime \<lparr>year = 2025, month = 12, day = 31, hour = 20, minute = 59\<rparr> \<and>
   calculate_local_price \<lparr>year = 2025, month = 12, day = 31, hour = 20, minute = 59\<rparr>
     = Some 321.695 \<and>
   calculate_local_price \<lparr>year = 2025, month = 6, day = 1, hour = 21, minute = 0\<rparr>
     = Some 56.688"
  using calculate_local_price_season
          [of "\<lparr>year = 2025, month = 12, day = 31, hour = 20, minute = 59\<rparr>"]
        calculate_local_price_season
          [of "\<lparr>year = 2025, month = 6, day = 1, hour = 21, minute = 0\<rparr>"]
  by (simp add: valid_datetime_def days_in_month_def)

text \<open>
  C2. At 2025-04-15T16:00, a valid timestamp in a month outside both sets, the function
  returns neither rate: no \<^verbatim>\<open>return\<close> is reached and the result is \<open>None\<close>.  The same
  holds at every hour of every month outside the two sets.
\<close>

theorem calculate_local_price_april:
  "valid_datetime \<lparr>year = 2025, month = 4, day = 15, hour = 16, minute = 0\<rparr> \<and>
   calculate_local_price \<lparr>year = 2025, month = 4, day = 15, hour = 16, minute = 0\<rparr> = None \<and>
   calculate_local_price \<lparr>year = 2025, month = 4, day = 15, hour = 16, minute = 0\<rparr>
     \<noteq> Some OFFPEAK_CHARGE"
  by (simp add: calculate_local_price_def valid_datetime_def days_in_month_def)


section \<open>Properties of the endpoint\<close>

lemma length_three:
  "length (d :: 'a list) = 3 \<Longrightarrow> \<exists>a b c. d = [a, b, c]"
  by (auto simp: length_Suc_conv numeral_3_eq_3)

lemma last_three_split:
  assumes "3 \<le> length xs"
  shows "\<exists>pre a b c. xs = pre @ [a, b, c] \<and> drop (length xs - 3) xs = [a, b, c]"
proof -
  have "length (drop (length xs - 3) xs) = 3" using assms by simp
  then obtain a b c where d: "drop (length xs - 3) xs = [a, b, c]"
    using length_three by blast
  have "xs = take (length xs - 3) xs @ drop (length xs - 3) xs" by simp
  with d show ?thesis by metis
qed

lemmas extract_defs =
  extract_prices_def series_step_def result_step_def row_step_def rows_of_def region_of_def
  region_differs_def append_float_def dict_get_def py_or_def ascii_runtime_def
  ascii_upper_def upper_char_def NETWORK_REGION_def METRIC_def FLOAT_LIMIT_def

lemmas float_defs =
  round_double_def nearest_double_def exponent_of_def pow2_def round_half_even_def
  floor_log2.simps Let_def

text \<open>
  The rounding at some known points: a third, a tie that goes to the even significand
  (\<open>float(2**53 + 1)\<close>), its neighbour that goes up, the largest finite double, a
  subnormal tie, and \<open>0.1 + 0.2\<close>, which is 0.30000000000000004.
\<close>

lemma nearest_double_samples:
  "nearest_double (1 / 3) = 6004799503160661 / 2 ^ 54"
  "nearest_double (2 ^ 53 + 1) = 2 ^ 53"
  "nearest_double (2 ^ 53 + 3) = 2 ^ 53 + 4"
  "nearest_double (2 ^ 1024 - 2 ^ 970 - 1) = 2 ^ 1024 - 2 ^ 971"
  "nearest_double (3 / 2 ^ 1075) = 2 / 2 ^ 1074"
  "nearest_double (- 5 / 2) = - 5 / 2"
  "fadd (Finite (3602879701896397 / 2 ^ 55)) (Finite (3602879701896397 / 2 ^ 54))
     = Finite (1351079888211149 / 2 ^ 52)"
  by (simp_all add: float_defs)

text \<open>
  C1, as the claim states it, fails at the three prices 0.1, 0.2 and 0.3 (each given as
  the double that \<open>json.loads\<close> makes of it): with left-to-right summation the reply
  holds 0.20000000000000004, which is not the mean of the three values.  And at three
  prices \<open>2 ^ 1023\<close>, whose mean is \<open>2 ^ 1023\<close>, the sum overflows and the average is
  infinite.
\<close>

theorem average_not_exact_counterexample:
  "get_average_price ascii_runtime [''OPENELECTRICITY_API_TOKEN'' \<mapsto> ''k''] (''a'', ''b'')
     (\<lambda>req. Response \<lparr>status_code = 200, resp_text = [], resp_json = Some
        (JDict [(''data'', JList [JDict [(''metric'', JStr ''price''),
          (''results'', JList [JDict [(''data'', JList
             [JFloat (Finite (3602879701896397 / 36028797018963968)),
              JFloat (Finite (3602879701896397 / 18014398509481984)),
              JFloat (Finite (5404319552844595 / 18014398509481984))])]])]])])\<rparr>)
     = (Returned \<lparr>network_region = ''NSW1'', interval = ''5m'', points_used = 3,
                   price_points = [Finite (3602879701896397 / 36028797018963968),
                                   Finite (3602879701896397 / 18014398509481984),
                                   Finite (5404319552844595 / 18014398509481984)],
                   average_price = Finite (7205759403792795 / 36028797018963968),
                   units = ''$ / MWh''\<rparr>,
        [\<lparr>url = API_BASE, params = query_params (''a'', ''b''),
          headers = [(''Authorization'', ''Bearer k'')]\<rparr>]) \<and>
   (7205759403792795 / 36028797018963968 :: real) \<noteq>
     (3602879701896397 / 36028797018963968 + 3602879701896397 / 18014398509481984
      + 5404319552844595 / 18014398509481984) / 3 \<and>
   get_average_price ascii_runtime [''OPENELECTRICITY_API_TOKEN'' \<mapsto> ''k''] (''a'', ''b'')
     (\<lambda>req. Response \<lparr>status_code = 200, resp_text = [], resp_json = Some
        (JDict [(''data'', JList [JDict [(''metric'', JStr ''price''),
          (''results'', JList [JDict [(''data'', JList
             [JFloat (Finite (2 ^ 1023)), JFloat (Finite (2 ^ 1023)),
              JFloat (Finite (2 ^ 1023))])]])]])])\<rparr>)
     = (Returned \<lparr>network_region = ''NSW1'', interval = ''5m'', points_used = 3,
                   price_points = [Finite (2 ^ 1023), Finite (2 ^ 1023), Finite (2 ^ 1023)],
                   average_price = PosInf, units = ''$ / MWh''\<rparr>,
        [\<lparr>url = API_BASE, params = query_params (''a'', ''b''),
          headers = [(''Authorization'', ''Bearer k'')]\<rparr>])"
proof -
  have auth: "get_auth_header [''OPENELECTRICITY_API_TOKEN'' \<mapsto> ''k'']
                = Inr [(''Authorization'', ''Bearer k'')]"
    by (simp add: get_auth_header_def getenv_or_def)
  have e1: "extract_prices ascii_runtime
        (JDict [(''data'', JList [JDict [(''metric'', JStr ''price''),
          (''results'', JList [JDict [(''data'', JList
             [JFloat (Finite (3602879701896397 / 36028797018963968)),
              JFloat (Finite (3602879701896397 / 18014398509481984)),
              JFloat (Finite (5404319552844595 / 18014398509481984))])]])]])])
      = Inr [Finite (3602879701896397 / 36028797018963968),
             Finite (3602879701896397 / 18014398509481984),
             Finite (5404319552844595 / 18014398509481984)]"
    by (simp add: extract_defs)
  have s1: "py_sum False [Finite (3602879701896397 / 36028797018963968),
             Finite (3602879701896397 / 18014398509481984),
             Finite (5404319552844595 / 18014398509481984)]
      = Finite (1351079888211149 / 2251799813685248)"
    by (simp add: py_sum_def float_defs)
  have d1: "truediv (Finite (1351079888211149 / 2251799813685248)) (Suc (Suc (Suc 0)))
      = Inr (Finite (7205759403792795 / 36028797018963968))"
    by (simp add: truediv_def float_defs)
  have e2: "extract_prices ascii_runtime
        (JDict [(''data'', JList [JDict [(''metric'', JStr ''price''),
          (''results'', JList [JDict [(''data'', JList
             [JFloat (Finite (2 ^ 1023)), JFloat (Finite (2 ^ 1023)),
              JFloat (Finite (2 ^ 1023))])]])]])])
      = Inr [Finite (2 ^ 1023), Finite (2 ^ 1023), Finite (2 ^ 1023)]"
    by (simp add: extract_defs)
  have s2: "py_sum False [Finite (2 ^ 1023), Finite (2 ^ 1023), Finite (2 ^ 1023)] = PosInf"
    by (simp add: py_sum_def float_defs)
  have d2: "truediv PosInf (Suc (Suc (Suc 0))) = Inr PosInf"
    by (simp add: truediv_def)
  have sel: "sum_compensated ascii_runtime = False"
    by (simp add: ascii_runtime_def)
  have g1: "get_average_price ascii_runtime [''OPENELECTRICITY_API_TOKEN'' \<mapsto> ''k''] (''a'', ''b'')
     (\<lambda>req. Response \<lparr>status_code = 200, resp_text = [], resp_json = Some
        (JDict [(''data'', JList [JDict [(''metric'', JStr ''price''),
          (''results'', JList [JDict [(''data'', JList
             [JFloat (Finite (3602879701896397 / 36028797018963968)),
              JFloat (Finite (3602879701896397 / 18014398509481984)),
              JFloat (Finite (5404319552844595 / 18014398509481984))])]])]])])\<rparr>)
     = (Returned \<lparr>network_region = ''NSW1'', interval = ''5m'', points_used = 3,
                   price_points = [Finite (3602879701896397 / 36028797018963968),
                                   Finite (3602879701896397 / 18014398509481984),
                                   Finite (5404319552844595 / 18014398509481984)],
                   average_price = Finite (7205759403792795 / 36028797018963968),
                   units = ''$ / MWh''\<rparr>,
        [\<lparr>url = API_BASE, params = query_params (''a'', ''b''),
          headers = [(''Authorization'', ''Bearer k'')]\<rparr>])"
    using auth e1 s1 d1
    by (simp add: get_average_price_def Let_def MIN_POINTS_def NETWORK_REGION_def
          INTERVAL_def sel)
  have g2: "get_average_price ascii_runtime [''OPENELECTRICITY_API_TOKEN'' \<mapsto> ''k''] (''a'', ''b'')
     (\<lambda>req. Response \<lparr>status_code = 200, resp_text = [], resp_json = Some
        (JDict [(''data'', JList [JDict [(''metric'', JStr ''price''),
          (''results'', JList [JDict [(''data'', JList
             [JFloat (Finite (2 ^ 1023)), JFloat (Finite (2 ^ 1023)),
              JFloat (Finite (2 ^ 1023))])]])]])])\<rparr>)
     = (Returned \<lparr>network_region = ''NSW1'', interval = ''5m'', points_used = 3,
                   price_points = [Finite (2 ^ 1023), Finite (2 ^ 1023), Finite (2 ^ 1023)],
                   average_price = PosInf, units = ''$ / MWh''\<rparr>,
        [\<lparr>url = API_BASE, params = query_params (''a'', ''b''),
          headers = [(''Authorization'', ''Bearer k'')]\<rparr>])"
    using auth e2 s2 d2
    by (simp add: get_average_price_def Let_def MIN_POINTS_def NETWORK_REGION_def
          INTERVAL_def sel)
  have n: "(7205759403792795 / 36028797018963968 :: real) \<noteq>
     (3602879701896397 / 36028797018963968 + 3602879701896397 / 18014398509481984
      + 5404319552844595 / 18014398509481984) / 3"
    by simp
  show ?thesis
    apply (intro conjI)
      apply (rule g1)
     apply (rule n)
    apply (rule g2)
    done
qed

text \<open>
  C1, amended. With a credential configured and an upstream response of status below
  400 whose body parses to a payload from which the extraction collects at least 3
  values, the handler returns a reply whose \<open>price_points\<close> are the last 3 collected
  values in order, whose \<open>points_used\<close> is 3 and whose \<open>average_price\<close> is
  \<^verbatim>\<open>sum(price_points) / 3\<close> computed in double arithmetic (the mean up to rounding,
  and infinite or NaN when the float sum is), with \<open>network_region\<close> \<open>NSW1\<close>, \<open>interval\<close>
  \<open>5m\<close> and \<open>units\<close> \<open>$ / MWh\<close>; the reply is a 200 response when its floats are finite.
\<close>

theorem average_of_last_three:
  assumes "get_auth_header env = Inr hdrs"
    and "client \<lparr>url = API_BASE, params = query_params window, headers = hdrs\<rparr> = Response resp"
    and "status_code resp < 400"
    and "resp_json resp = Some payload"
    and "extract_prices py payload = Inr vals"
    and "3 \<le> length vals"
  shows "\<exists>pre a b c q. vals = pre @ [a, b, c] \<and>
           truediv (py_sum (sum_compensated py) [a, b, c]) 3 = Inr q \<and>
           get_average_price py env window client =
             (Returned \<lparr>network_region = ''NSW1'', interval = ''5m'', points_used = 3,
                        price_points = [a, b, c], average_price = q,
                        units = ''$ / MWh''\<rparr>,
              [\<lparr>url = API_BASE, params = query_params window, headers = hdrs\<rparr>]) \<and>
           (is_finite a \<and> is_finite b \<and> is_finite c \<and> is_finite q \<longrightarrow>
              status_of (fst (get_average_price py env window client)) = 200)"
proof -
  from last_three_split [OF assms(6)] obtain pre a b c
    where v: "vals = pre @ [a, b, c]" and d: "drop (length vals - 3) vals = [a, b, c]"
    by blast
  define q where "q = (case py_sum (sum_compensated py) [a, b, c] of
                         Finite s \<Rightarrow> round_double (s / 3) | x \<Rightarrow> x)"
  have t3: "truediv (py_sum (sum_compensated py) [a, b, c]) 3 = Inr q"
    by (simp add: truediv_def q_def split: pyfloat.splits)
  have t3': "truediv (py_sum (sum_compensated py) [a, b, c]) (length [a, b, c]) = Inr q"
    by (simp add: truediv_def q_def split: pyfloat.splits)
  have g: "get_average_price py env window client =
             (Returned \<lparr>network_region = ''NSW1'', interval = ''5m'', points_used = 3,
                        price_points = [a, b, c], average_price = q,
                        units = ''$ / MWh''\<rparr>,
              [\<lparr>url = API_BASE, params = query_params window, headers = hdrs\<rparr>])"
    using assms d t3'
    by (simp add: get_average_price_def Let_def MIN_POINTS_def NETWORK_REGION_def INTERVAL_def)
  have "is_finite a \<and> is_finite b \<and> is_finite c \<and> is_finite q \<longrightarrow>
          status_of (fst (get_average_price py env window client)) = 200"
    by (simp add: g reply_finite_def)
  with v t3 g show ?thesis by blast
qed

theorem average_of_last_three_witness:
  "get_auth_header [''OPENELECTRICITY_API_TOKEN'' \<mapsto> ''k''] = Inr [(''Authorization'', ''Bearer k'')] \<and>
   extract_prices ascii_runtime (JDict [(''data'', JList [JDict [(''metric'', JStr ''price''),
      (''results'', JList [JDict [(''data'', JList [JInt 1, JInt 2, JInt 3, JInt 7])]])]])])
     = Inr [Finite 1, Finite 2, Finite 3, Finite 7] \<and>
   get_average_price ascii_runtime [''OPENELECTRICITY_API_TOKEN'' \<mapsto> ''k''] (''a'', ''b'')
     (\<lambda>req. Response \<lparr>status_code = 200, resp_text = [], resp_json = Some
        (JDict [(''data'', JList [JDict [(''metric'', JStr ''price''),
          (''results'', JList [JDict [(''data'', JList [JInt 1, JInt 2, JInt 3, JInt 7])]])]])])\<rparr>)
     = (Returned \<lparr>network_region = ''NSW1'', interval = ''5m'', points_used = 3,
                   price_points = [Finite 2, Finite 3, Finite 7], average_price = Finite 4,
                   units = ''$ / MWh''\<rparr>,
        [\<lparr>url = API_BASE, params = query_params (''a'', ''b''),
          headers = [(''Authorization'', ''Bearer k'')]\<rparr>])"
proof -
  let ?env = "[''OPENELECTRICITY_API_TOKEN'' \<mapsto> ''k'']"
  let ?hdrs = "[(''Authorization'', ''Bearer k'')]"
  let ?payload = "JDict [(''data'', JList [JDict [(''metric'', JStr ''price''),
      (''results'', JList [JDict [(''data'', JList [JInt 1, JInt 2, JInt 3, JInt 7])]])]])]"
  let ?resp = "\<lparr>status_code = 200, resp_text = [], resp_json = Some ?payload\<rparr>"
  let ?client = "\<lambda>req :: request. Response ?resp"
  have h1: "get_auth_header ?env = Inr ?hdrs"
    by (simp add: get_auth_header_def getenv_or_def)
  have h2: "?client \<lparr>url = API_BASE, params = query_params (''a'', ''b''), headers = ?hdrs\<rparr>
              = Response ?resp" by simp
  have h3: "status_code ?resp < 400" by simp
  have h4: "resp_json ?resp = Some ?payload" by simp
  have h5: "extract_prices ascii_runtime ?payload = Inr [Finite 1, Finite 2, Finite 3, Finite 7]"
    by (simp add: extract_defs float_defs)
  have h6: "3 \<le> length [Finite 1, Finite 2, Finite 3, Finite 7]" by simp
  from average_of_last_three [OF h1 h2 h3 h4 h5 h6]
  obtain pre a b c q where v: "[Finite 1, Finite 2, Finite 3, Finite 7] = pre @ [a, b, c]"
    and t: "truediv (py_sum (sum_compensated ascii_runtime) [a, b, c]) 3 = Inr q"
    and g: "get_average_price ascii_runtime ?env (''a'', ''b'') ?client =
             (Returned \<lparr>network_region = ''NSW1'', interval = ''5m'', points_used = 3,
                        price_points = [a, b, c], average_price = q,
                        units = ''$ / MWh''\<rparr>,
              [\<lparr>url = API_BASE, params = query_params (''a'', ''b''), headers = ?hdrs\<rparr>])"
    by blast
  from v have abc: "a = Finite 2" "b = Finite 3" "c = Finite 7" by simp_all
  have "truediv (py_sum (sum_compensated ascii_runtime) [Finite 2, Finite 3, Finite 7]) 3
          = Inr (Finite 4)"
    by (simp add: truediv_def py_sum_def ascii_runtime_def float_defs)
  with t abc have "q = Finite 4" by simp
  with g abc h1 h5 show ?thesis by simp
qed

text \<open>
  C3. With a credential configured and an upstream response of status below 400 whose
  body parses to a payload from which the extraction collects fewer than 3 values, the
  endpoint raises the 502 exception with the insufficient-data message.  And whatever
  the inputs, a returned reply uses exactly 3 points and holds the float quotient of
  their float sum by 3.
\<close>

theorem too_few_points:
  "(get_auth_header env = Inr hdrs \<and>
    client \<lparr>url = API_BASE, params = query_params window, headers = hdrs\<rparr> = Response resp \<and>
    status_code resp < 400 \<and> resp_json resp = Some payload \<and>
    extract_prices py payload = Inr vals \<and> length vals < 3 \<longrightarrow>
      get_average_price py env window client =
        (Raised (HTTPException 502 ''Upstream response did not contain enough price points''),
         [\<lparr>url = API_BASE, params = query_params window, headers = hdrs\<rparr>]) \<and>
      status_of (fst (get_average_price py env window client)) = 502) \<and>
   (fst (get_average_price py env window client) = Returned r \<longrightarrow>
      points_used r = 3 \<and> length (price_points r) = 3 \<and>
      truediv (py_sum (sum_compensated py) (price_points r)) 3 = Inr (average_price r))"
proof (intro conjI impI)
  assume a: "get_auth_header env = Inr hdrs \<and>
    client \<lparr>url = API_BASE, params = query_params window, headers = hdrs\<rparr> = Response resp \<and>
    status_code resp < 400 \<and> resp_json resp = Some payload \<and>
    extract_prices py payload = Inr vals \<and> length vals < 3"
  then show g: "get_average_price py env window client =
        (Raised (HTTPException 502 ''Upstream response did not contain enough price points''),
         [\<lparr>url = API_BASE, params = query_params window, headers = hdrs\<rparr>])"
    by (simp add: get_average_price_def Let_def MIN_POINTS_def)
  show "status_of (fst (get_average_price py env window client)) = 502"
    by (simp add: g)
next
  assume r: "fst (get_average_price py env window client) = Returned r"
  then show "points_used r = 3"
    by (auto simp: get_average_price_def Let_def MIN_POINTS_def
             split: sum.splits upstream.splits option.splits if_splits)
  from r show "length (price_points r) = 3"
    by (auto simp: get_average_price_def Let_def MIN_POINTS_def
             split: sum.splits upstream.splits option.splits if_splits)
  from r show "truediv (py_sum (sum_compensated py) (price_points r)) 3
                 = Inr (average_price r)"
    by (auto simp: get_average_price_def Let_def MIN_POINTS_def
             split: sum.splits upstream.splits option.splits if_splits)
qed

theorem too_few_points_witness:
  "get_average_price ascii_runtime [''OPEN_ELECTRICITY_API_KEY'' \<mapsto> ''k''] (''a'', ''b'')
     (\<lambda>req. Response \<lparr>status_code = 200, resp_text = [], resp_json = Some
        (JDict [(''data'', JList [JDict [(''metric'', JStr ''price''),
          (''results'', JList [JDict [(''data'', JList [JInt 1, JInt 2])]])]])])\<rparr>)
     = (Raised (HTTPException 502 ''Upstream response did not contain enough price points''),
        [\<lparr>url = API_BASE, params = query_params (''a'', ''b''),
          headers = [(''Authorization'', ''Bearer k'')]\<rparr>])"
  using too_few_points [where py = ascii_runtime
      and env = "[''OPEN_ELECTRICITY_API_KEY'' \<mapsto> ''k'']"
      and hdrs = "[(''Authorization'', ''Bearer k'')]" and window = "(''a'', ''b'')"
      and client = "\<lambda>req. Response \<lparr>status_code = 200, resp_text = [], resp_json = Some
        (JDict [(''data'', JList [JDict [(''metric'', JStr ''price''),
          (''results'', JList [JDict [(''data'', JList [JInt 1, JInt 2])]])]])])\<rparr>"
      and resp = "\<lparr>status_code = 200, resp_text = [], resp_json = Some
        (JDict [(''data'', JList [JDict [(''metric'', JStr ''price''),
          (''results'', JList [JDict [(''data'', JList [JInt 1, JInt 2])]])]])])\<rparr>"
      and payload = "JDict [(''data'', JList [JDict [(''metric'', JStr ''price''),
          (''results'', JList [JDict [(''data'', JList [JInt 1, JInt 2])]])]])]"
      and vals = "[Finite 1, Finite 2]"]
  by (simp add: get_auth_header_def getenv_or_def extract_defs float_defs)

text \<open>
  C7. When each of the two credential variables is unset or empty, the endpoint raises
  the 500 configuration exception and the list of outbound calls is empty: the failure
  comes before any call to the upstream API.
\<close>

theorem missing_credential:
  assumes "env ''OPENELECTRICITY_API_TOKEN'' = None \<or> env ''OPENELECTRICITY_API_TOKEN'' = Some []"
    and "env ''OPEN_ELECTRICITY_API_KEY'' = None \<or> env ''OPEN_ELECTRICITY_API_KEY'' = Some []"
  shows "get_average_price py env window client =
           (Raised (HTTPException 500
              ''OPENELECTRICITY_API_TOKEN or OPEN_ELECTRICITY_API_KEY is not set''), []) \<and>
         status_of (fst (get_average_price py env window client)) = 500 \<and>
         snd (get_average_price py env window client) = []"
  using assms
  by (auto simp: get_average_price_def get_auth_header_def getenv_or_def Let_def)

theorem missing_credential_witness:
  "get_average_price ascii_runtime Map.empty (''a'', ''b'') (\<lambda>req. TransportFailure ''down'') =
     (Raised (HTTPException 500
        ''OPENELECTRICITY_API_TOKEN or OPEN_ELECTRICITY_API_KEY is not set''), []) \<and>
   snd (get_average_price ascii_runtime [''OPENELECTRICITY_API_TOKEN'' \<mapsto> []] (''a'', ''b'')
          (\<lambda>req. TransportFailure ''down'')) = []"
  using missing_credential [where py = ascii_runtime and env = Map.empty
          and window = "(''a'', ''b'')" and client = "\<lambda>req. TransportFailure ''down''"]
        missing_credential [where py = ascii_runtime
          and env = "[''OPENELECTRICITY_API_TOKEN'' \<mapsto> []]"
          and window = "(''a'', ''b'')" and client = "\<lambda>req. TransportFailure ''down''"]
  by simp

text \<open>
  C8. With a credential configured: an upstream response of status 400 or more makes
  the endpoint raise an exception with that same status and the upstream body text as
  its detail; a transport failure makes it raise the 502 exception whose detail wraps
  the transport error's message.
\<close>

theorem upstream_failure:
  assumes "get_auth_header env = Inr hdrs"
  shows "(client \<lparr>url = API_BASE, params = query_params window, headers = hdrs\<rparr> = Response resp \<and>
          status_code resp \<ge> 400 \<longrightarrow>
            fst (get_average_price py env window client) =
              Raised (HTTPException (status_code resp) (resp_text resp)) \<and>
            status_of (fst (get_average_price py env window client)) = status_code resp) \<and>
         (client \<lparr>url = API_BASE, params = query_params window, headers = hdrs\<rparr> = TransportFailure exc \<longrightarrow>
            fst (get_average_price py env window client) =
              Raised (HTTPException 502 (''Upstream request failed: '' @ exc)) \<and>
            status_of (fst (get_average_price py env window client)) = 502)"
  using assms
  by (simp add: get_average_price_def Let_def)

theorem upstream_failure_witness:
  "fst (get_average_price ascii_runtime [''OPENELECTRICITY_API_TOKEN'' \<mapsto> ''k''] (''a'', ''b'')
     (\<lambda>req. Response \<lparr>status_code = 404, resp_text = ''not found'', resp_json = None\<rparr>))
     = Raised (HTTPException 404 ''not found'') \<and>
   fst (get_average_price ascii_runtime [''OPENELECTRICITY_API_TOKEN'' \<mapsto> ''k''] (''a'', ''b'')
     (\<lambda>req. TransportFailure ''timed out''))
     = Raised (HTTPException 502 ''Upstream request failed: timed out'')"
proof -
  have h: "get_auth_header [''OPENELECTRICITY_API_TOKEN'' \<mapsto> ''k'']
             = Inr [(''Authorization'', ''Bearer k'')]"
    by (simp add: get_auth_header_def getenv_or_def)
  show ?thesis
    using upstream_failure [OF h, where py = ascii_runtime and window = "(''a'', ''b'')"
            and client = "\<lambda>req. Response \<lparr>status_code = 404, resp_text = ''not found'', resp_json = None\<rparr>"
            and resp = "\<lparr>status_code = 404, resp_text = ''not found'', resp_json = None\<rparr>"]
          upstream_failure [OF h, where py = ascii_runtime and window = "(''a'', ''b'')"
            and client = "\<lambda>req. TransportFailure ''timed out''" and exc = "''timed out''"]
    by simp
qed


section \<open>Properties of the extraction\<close>

lemma for_each_append:
  "for_each f (xs @ ys) s = (case for_each f xs s of Inl e \<Rightarrow> Inl e | Inr s' \<Rightarrow> for_each f ys s')"
  by (induction xs arbitrary: s) (auto split: sum.splits)

text \<open>A loop whose body only appends to the list it is given appends as a whole.\<close>

lemma for_each_acc:
  assumes step: "\<And>x acc. f x acc = (case f x [] of Inl e \<Rightarrow> Inl e | Inr vs \<Rightarrow> Inr (acc @ vs))"
  shows "for_each f xs acc = (case for_each f xs [] of Inl e \<Rightarrow> Inl e | Inr vs \<Rightarrow> Inr (acc @ vs))"
proof (induction xs arbitrary: acc)
  case Nil
  show ?case by simp
next
  case (Cons x xs)
  show ?case
  proof (cases "f x []")
    case (Inl e)
    then show ?thesis using step [of x acc] by simp
  next
    case (Inr vs)
    then have a: "f x acc = Inr (acc @ vs)" using step [of x acc] by simp
    show ?thesis
      using Cons.IH [of "acc @ vs"] Cons.IH [of vs] a Inr
      by (simp split: sum.splits)
  qed
qed

lemma append_float_acc:
  "append_float v acc = (case append_float v [] of Inl e \<Rightarrow> Inl e | Inr vs \<Rightarrow> Inr (acc @ vs))"
  by (simp add: append_float_def split: sum.splits)

lemma row_step_acc:
  "row_step row acc = (case row_step row [] of Inl e \<Rightarrow> Inl e | Inr vs \<Rightarrow> Inr (acc @ vs))"
  unfolding row_step_def Let_def
  using append_float_acc [of _ acc]
  by (auto split: json.splits sum.splits)

lemma rows_loop_acc:
  "for_each row_step rows acc =
     (case for_each row_step rows [] of Inl e \<Rightarrow> Inl e | Inr vs \<Rightarrow> Inr (acc @ vs))"
  by (rule for_each_acc) (rule row_step_acc)

text \<open>A series with the metric \<open>price\<close>, seen at one of its results.\<close>

lemma series_step_context:
  assumes "dict_get s ''metric'' = JStr METRIC"
    and "dict_get s ''results'' = JList (before @ JDict r # after)"
  shows "series_step py (JDict s) acc =
           (case for_each (result_step py) before acc of
              Inl e \<Rightarrow> Inl e
            | Inr a1 \<Rightarrow> (case result_step py (JDict r) a1 of
                          Inl e \<Rightarrow> Inl e
                        | Inr a2 \<Rightarrow> for_each (result_step py) after a2))"
  using assms by (simp add: series_step_def for_each_append split: sum.splits)

text \<open>
  In a series whose metric is \<open>price\<close>, a result whose \<open>columns\<close> is absent or falsy, or
  is an object with none of the keys \<open>region\<close>, \<open>network_region\<close> and \<open>code\<close>, has its rows
  included: once the results before it are processed, the values of all its rows are
  appended to the values collected so far, and the loop goes on with the results after
  it.
\<close>

lemma no_region_rows_included:
  assumes metric: "dict_get s ''metric'' = JStr METRIC"
    and results: "dict_get s ''results'' = JList (before @ JDict r # after)"
    and cols: "\<not> truthy (dict_get r ''columns'') \<or>
               dict_get r ''columns'' = JDict cols \<and> map_of cols ''region'' = None \<and>
               map_of cols ''network_region'' = None \<and> map_of cols ''code'' = None"
  shows "series_step py (JDict s) acc =
           (case for_each (result_step py) before acc of
              Inl e \<Rightarrow> Inl e
            | Inr a1 \<Rightarrow> (case for_each row_step (rows_of r) [] of
                          Inl e \<Rightarrow> Inl e
                        | Inr vs \<Rightarrow> for_each (result_step py) after (a1 @ vs)))"
proof -
  have "\<exists>cs. py_or (dict_get r ''columns'') (JDict []) = JDict cs \<and> region_of cs = JNull"
  proof (cases "truthy (dict_get r ''columns'')")
    case False
    then have "py_or (dict_get r ''columns'') (JDict []) = JDict []"
      by (simp add: py_or_def)
    moreover have "region_of [] = JNull"
      by (simp add: region_of_def dict_get_def py_or_def)
    ultimately show ?thesis by blast
  next
    case True
    with cols have c: "dict_get r ''columns'' = JDict cols"
      and k: "map_of cols ''region'' = None" "map_of cols ''network_region'' = None"
             "map_of cols ''code'' = None"
      by auto
    from c have "py_or (dict_get r ''columns'') (JDict []) = JDict cols"
      by (simp add: py_or_def)
    moreover from k have "region_of cols = JNull"
      by (simp add: region_of_def dict_get_def py_or_def)
    ultimately show ?thesis by blast
  qed
  then have "result_step py (JDict r) a = for_each row_step (rows_of r) a" for a
    by (auto simp: result_step_def Let_def)
  then have "result_step py (JDict r) a =
      (case for_each row_step (rows_of r) [] of Inl e \<Rightarrow> Inl e | Inr vs \<Rightarrow> Inr (a @ vs))" for a
    using rows_loop_acc [of "rows_of r" a] by simp
  then show ?thesis
    unfolding series_step_context [OF metric results]
    by (simp split: sum.splits)
qed

text \<open>
  C6. The claim fails where the column metadata of a result is a truthy value that is
  not an object: \<^verbatim>\<open>{"columns": ["unit"], "data": [["t", 1.5]]}\<close> carries none of the
  three keys, yet its row is not included, since \<^verbatim>\<open>cols.get\<close> raises
  \<open>AttributeError\<close>.  The same result without \<open>columns\<close> gives its row.
\<close>

theorem no_region_columns_list_raises:
  "extract_prices ascii_runtime
     (JDict [(''data'', JList [JDict [(''metric'', JStr ''price''),
        (''results'', JList [JDict [(''columns'', JList [JStr ''unit'']),
                                    (''data'', JList [JList [JStr ''t'', JFloat (Finite 1.5)]])]])]])])
     = Inl AttributeError \<and>
   extract_prices ascii_runtime
     (JDict [(''data'', JList [JDict [(''metric'', JStr ''price''),
        (''results'', JList [JDict [(''data'', JList [JList [JStr ''t'', JFloat (Finite 1.5)]])]])]])])
     = Inr [Finite 1.5]"
  by (simp add: extract_defs)

text \<open>
  C5, as the claim states it, fails at a result whose region tag is the empty string:
  the tag does not read \<open>NSW1\<close> in upper case, yet the row of the result is collected.
\<close>

theorem empty_region_tag_counterexample:
  "region_of [(''code'', JStr [])] = JStr [] \<and>
   str_upper ascii_runtime [] \<noteq> NETWORK_REGION \<and>
   extract_prices ascii_runtime
     (JDict [(''data'', JList [JDict [(''metric'', JStr ''price''),
        (''results'', JList [JDict [(''columns'', JDict [(''code'', JStr [])]),
                                    (''data'', JList [JList [JStr ''t'', JInt 5]])]])]])])
     = Inr [Finite 5]"
  by (simp add: extract_defs float_defs)

text \<open>
  C5, amended. In a series whose metric is \<open>price\<close>, for a result whose region tag is a
  string: when the tag is not empty and \<^verbatim>\<open>str.upper\<close> makes it \<open>NSW1\<close> the rows of the
  result are included, when it is not empty and \<^verbatim>\<open>str.upper\<close> makes it anything else
  the result is skipped (the series gives what it gives without that result), and when
  it is empty the result counts as carrying no region and its rows are included.  This
  holds whatever the case mapping of the interpreter is.
\<close>

theorem region_tag_case_insensitive:
  assumes metric: "dict_get s ''metric'' = JStr METRIC"
    and results: "dict_get s ''results'' = JList (before @ JDict r # after)"
    and cols: "dict_get r ''columns'' = JDict cols"
    and tag: "region_of cols = JStr tag"
  shows "series_step py (JDict s) acc =
           (if tag = [] \<or> str_upper py tag = NETWORK_REGION
            then (case for_each (result_step py) before acc of
                    Inl e \<Rightarrow> Inl e
                  | Inr a1 \<Rightarrow> (case for_each row_step (rows_of r) [] of
                                Inl e \<Rightarrow> Inl e
                              | Inr vs \<Rightarrow> for_each (result_step py) after (a1 @ vs)))
            else for_each (result_step py) (before @ after) acc)"
proof -
  have c: "py_or (dict_get r ''columns'') (JDict []) = JDict cols"
    using cols by (simp add: py_or_def)
  have step: "result_step py (JDict r) a =
      (if tag = [] \<or> str_upper py tag = NETWORK_REGION
       then for_each row_step (rows_of r) a else Inr a)" for a
    using tag by (simp add: result_step_def c Let_def region_differs_def)
  show ?thesis
  proof (cases "tag = [] \<or> str_upper py tag = NETWORK_REGION")
    case True
    then have "result_step py (JDict r) a =
      (case for_each row_step (rows_of r) [] of Inl e \<Rightarrow> Inl e | Inr vs \<Rightarrow> Inr (a @ vs))" for a
      using step [of a] rows_loop_acc [of "rows_of r" a] by simp
    then show ?thesis
      unfolding series_step_context [OF metric results]
      using True by (simp split: sum.splits)
  next
    case False
    then have "result_step py (JDict r) a = Inr a" for a
      using step [of a] by simp
    then show ?thesis
      unfolding series_step_context [OF metric results]
      using False by (simp add: for_each_append split: sum.splits)
  qed
qed

theorem region_tag_case_insensitive_witness:
  "str_upper ascii_runtime ''nsw1'' = NETWORK_REGION \<and>
   str_upper ascii_runtime ''vic1'' \<noteq> NETWORK_REGION \<and>
   series_step ascii_runtime
     (JDict [(''metric'', JStr ''price''),
             (''results'', JList [JDict [(''columns'', JDict [(''region'', JStr ''nsw1'')]),
                                         (''data'', JList [JList [JStr ''t'', JFloat (Finite 2.5)]])],
                                  JDict [(''columns'', JDict [(''region'', JStr ''vic1'')]),
                                         (''data'', JList [JList [JStr ''t'', JInt 9]])]])])
     [] = Inr [Finite 2.5]"
proof -
  let ?r1 = "[(''columns'', JDict [(''region'', JStr ''nsw1'')]),
              (''data'', JList [JList [JStr ''t'', JFloat (Finite 2.5)]])]"
  let ?r2 = "[(''columns'', JDict [(''region'', JStr ''vic1'')]),
              (''data'', JList [JList [JStr ''t'', JInt 9]])]"
  let ?s = "[(''metric'', JStr ''price''), (''results'', JList [JDict ?r1, JDict ?r2])]"
  have h1: "dict_get ?s ''metric'' = JStr METRIC" by (simp add: dict_get_def METRIC_def)
  have h2: "dict_get ?s ''results'' = JList ([JDict ?r1] @ JDict ?r2 # [])"
    by (simp add: dict_get_def)
  have h3: "dict_get ?r2 ''columns'' = JDict [(''region'', JStr ''vic1'')]"
    by (simp add: dict_get_def)
  have h4: "region_of [(''region'', JStr ''vic1'')] = JStr ''vic1''"
    by (simp add: region_of_def dict_get_def py_or_def)
  show ?thesis
    using region_tag_case_insensitive [OF h1 h2 h3 h4, of ascii_runtime "[]"]
    by (simp add: extract_defs)
qed

text \<open>
  C9, as the claim states it, fails at the row \<^verbatim>\<open>{"value": 0, "v": 0}\<close>: neither
  \<open>price\<close> nor \<open>v\<close> holds a non-zero number, yet the row contributes the point 0.0,
  because \<^verbatim>\<open>or\<close> returns its last operand whatever its truth value.
\<close>

theorem zero_value_counterexample:
  "dict_get [(''value'', JInt 0), (''v'', JInt 0)] ''value'' = JInt 0 \<and>
   \<not> (is_number (dict_get [(''value'', JInt 0), (''v'', JInt 0)] ''price'') \<and>
      truthy (dict_get [(''value'', JInt 0), (''v'', JInt 0)] ''price'')) \<and>
   \<not> (is_number (dict_get [(''value'', JInt 0), (''v'', JInt 0)] ''v'') \<and>
      truthy (dict_get [(''value'', JInt 0), (''v'', JInt 0)] ''v'')) \<and>
   row_step (JDict [(''value'', JInt 0), (''v'', JInt 0)]) [] = Inr [Finite 0]"
  by (simp add: extract_defs nearest_double_def)

text \<open>
  C9, amended. An object row whose \<open>value\<close> field equals 0 contributes no price point
  unless \<open>price\<close> holds a non-zero number or, \<open>price\<close> being absent or falsy, \<open>v\<close> holds
  any number, zero included (a bool counts as a number, as it does for \<open>isinstance\<close>);
  so \<^verbatim>\<open>{"value": 0}\<close> alone contributes nothing.  An array-pair row
  \<^verbatim>\<open>[timestamp, 0]\<close> contributes the value 0.0.
\<close>

theorem zero_value_row:
  "(dict_get kvs ''value'' = JInt 0 \<or> dict_get kvs ''value'' = JFloat (Finite 0) \<longrightarrow>
      (row_step (JDict kvs) acc = Inr acc) =
        (\<not> (is_number (dict_get kvs ''price'') \<and> truthy (dict_get kvs ''price'') \<or>
            \<not> truthy (dict_get kvs ''price'') \<and> is_number (dict_get kvs ''v'')))) \<and>
   row_step (JDict [(''value'', JInt 0)]) acc = Inr acc \<and>
   row_step (JList [ts, JInt 0]) acc = Inr (acc @ [Finite 0])"
  by (auto simp: row_step_def Let_def py_or_def append_float_def dict_get_def FLOAT_LIMIT_def
                 nearest_double_def
           split: sum.splits)

theorem zero_value_row_witness:
  "dict_get [(''value'', JInt 0), (''price'', JFloat (Finite 2.5))] ''value'' = JInt 0 \<and>
   row_step (JDict [(''value'', JInt 0), (''price'', JFloat (Finite 2.5))]) [] \<noteq> Inr [] \<and>
   row_step (JDict [(''value'', JFloat (Finite 0)), (''price'', JStr ''x''), (''v'', JInt 4)]) []
     = Inr []"
  using zero_value_row [where kvs = "[(''value'', JInt 0), (''price'', JFloat (Finite 2.5))]"
                          and acc = "[]"]
        zero_value_row [where kvs = "[(''value'', JFloat (Finite 0)), (''price'', JStr ''x''),
                                      (''v'', JInt 4)]"
                          and acc = "[]"]
  by (simp add: dict_get_def)

text \<open>
  C10. The extraction raises on well-formed JSON: \<open>AttributeError\<close> when a result's
  \<open>columns\<close> is a non-empty list (any truthy value that is not an object does the same),
  and \<open>OverflowError\<close> when a row holds an integer too large for a float.
\<close>

theorem extract_prices_raises:
  "extract_prices ascii_runtime
     (JDict [(''data'', JList [JDict [(''metric'', JStr ''price''),
        (''results'', JList [JDict [(''columns'', JList [JInt 1]),
                                    (''data'', JList [JList [JInt 0, JInt 1]])]])]])])
     = Inl AttributeError \<and>
   extract_prices ascii_runtime
     (JDict [(''data'', JList [JDict [(''metric'', JStr ''price''),
        (''results'', JList [JDict [(''data'', JList [JList [JInt 0, JInt (2 ^ 1024)]])]])]])])
     = Inl OverflowError"
  by (simp add: extract_defs)

end
